theory Spec2Isabelle
  imports Complex_Main "HOL-Library.Multiset"
begin

section \<open>Python floats\<close>

text \<open>
  Every number of the program is a Python \<^verbatim>\<open>float\<close>, an IEEE 754 binary64 value. A finite
  float is a real number, and a float operation is the exact operation on the reals
  followed by one rounding. The embedding writes that rounding out: every arithmetic
  function of the program takes the rounding operator \<open>rnd\<close> as its first argument.
  Two roundings are used:
  \<^item> \<open>binary64\<close>, round to nearest, ties to even, with a 53 bit significand and the
    subnormal quantum \<open>2 powr -1074\<close>: what Python computes;
  \<^item> \<open>exact\<close>, no rounding: arithmetic on the reals, the reading "up to floating
    tolerance".
  Infinities, NaN and the negative zero are not values of the model, although
  \<^verbatim>\<open>float()\<close> parses them and the validators let NaN through. A result of magnitude
  \<open>2 powr 1024 - 2 powr 970\<close> or more overflows to an infinity in Python, while \<open>binary64\<close>
  still rounds it to a real: the model speaks for the program only where no operation
  overflows and no value is NaN.
\<close>

type_synonym pyfloat = real

type_synonym rounding = "real \<Rightarrow> pyfloat"

definition exact :: rounding where
  "exact x = x"

definition pow2 :: "int \<Rightarrow> real" where
  "pow2 k = (if 0 \<le> k then 2 ^ nat k else 1 / 2 ^ nat (- k))"

text \<open>
  The exponent \<open>q\<close> of the unit in the last place of the floats around \<open>a \<ge> 0\<close>: the
  largest \<open>q\<close> in \<open>[-1074, 973]\<close> with \<open>pow2 (q + 52) \<le> a\<close>, found by bisection,
  and \<open>-1074\<close> (the subnormal range) when there is none.
\<close>

definition quantum_exp :: "real \<Rightarrow> int" where
  "quantum_exp a =
     foldl (\<lambda>q s. if pow2 (q + s + 52) \<le> a then q + s else q) (- 1074)
       [1024, 512, 256, 128, 64, 32, 16, 8, 4, 2, 1]"

definition round_half_even :: "real \<Rightarrow> int" where
  "round_half_even y =
     (let f = \<lfloor>y\<rfloor>; r = y - of_int f
      in if r < 1 / 2 then f else if 1 / 2 < r then f + 1 else if even f then f else f + 1)"

definition binary64 :: rounding where
  "binary64 x =
     (let q = quantum_exp \<bar>x\<bar> in of_int (round_half_even (x / pow2 q)) * pow2 q)"

text \<open>
  0 and the reals of a magnitude in \<open>[2 powr -1022, 2 powr 1024)\<close>, on which \<open>binary64\<close>
  has a relative error of at most \<open>2 powr -53\<close>. Every result that Python computes
  without underflow and without overflow lies in this range; the range is wider at its
  top, where Python overflows from \<open>2 powr 1024 - 2 powr 970\<close> on.
\<close>

definition in_float_range :: "real \<Rightarrow> bool" where
  "in_float_range x = (x = 0 \<or> (pow2 (- 1022) \<le> \<bar>x\<bar> \<and> \<bar>x\<bar> < pow2 1024))"

definition fmul :: "rounding \<Rightarrow> pyfloat \<Rightarrow> pyfloat \<Rightarrow> pyfloat" where
  "fmul rnd x y = rnd (x * y)"

text \<open>Python raises ZeroDivisionError on a zero divisor; the program only divides by 1000.0.\<close>

definition fdiv :: "rounding \<Rightarrow> pyfloat \<Rightarrow> pyfloat \<Rightarrow> pyfloat" where
  "fdiv rnd x y = rnd (x / y)"

definition fadd :: "rounding \<Rightarrow> pyfloat \<Rightarrow> pyfloat \<Rightarrow> pyfloat" where
  "fadd rnd x y = rnd (x + y)"

section \<open>calculations.py\<close>

datatype error = ValueError string | IndexError

definition DAYS_PER_WEEK :: pyfloat where
  "DAYS_PER_WEEK = 7"

definition DAYS_PER_MONTH :: pyfloat where
  "DAYS_PER_MONTH = 30"

definition validate_price_per_kwh :: "pyfloat \<Rightarrow> error + unit" where
  "validate_price_per_kwh price =
     (if price \<le> 0 then Inl (ValueError ''Price per kWh must be greater than 0.'')
      else Inr ())"

definition validate_device_values :: "pyfloat \<Rightarrow> pyfloat \<Rightarrow> error + unit" where
  "validate_device_values wattage hours =
     (if wattage \<le> 0 then Inl (ValueError ''Wattage must be greater than 0.'')
      else if hours < 0 then Inl (ValueError ''Average hours per day cannot be negative.'')
      else if 24 < hours then Inl (ValueError ''Average hours per day cannot exceed 24.'')
      else Inr ())"

definition daily_kwh :: "rounding \<Rightarrow> pyfloat \<Rightarrow> pyfloat \<Rightarrow> pyfloat" where
  "daily_kwh rnd wattage_w hours_per_day = fdiv rnd (fmul rnd wattage_w hours_per_day) 1000"

definition cost_for_kwh :: "rounding \<Rightarrow> pyfloat \<Rightarrow> pyfloat \<Rightarrow> pyfloat" where
  "cost_for_kwh rnd kwh price_per_kwh = fmul rnd kwh price_per_kwh"

definition daily_cost :: "rounding \<Rightarrow> pyfloat \<Rightarrow> pyfloat \<Rightarrow> pyfloat \<Rightarrow> pyfloat" where
  "daily_cost rnd wattage_w hours_per_day price_per_kwh =
     cost_for_kwh rnd (daily_kwh rnd wattage_w hours_per_day) price_per_kwh"

definition weekly_cost :: "rounding \<Rightarrow> pyfloat \<Rightarrow> pyfloat \<Rightarrow> pyfloat \<Rightarrow> pyfloat" where
  "weekly_cost rnd wattage_w hours_per_day price_per_kwh =
     fmul rnd (daily_cost rnd wattage_w hours_per_day price_per_kwh) DAYS_PER_WEEK"

definition monthly_cost :: "rounding \<Rightarrow> pyfloat \<Rightarrow> pyfloat \<Rightarrow> pyfloat \<Rightarrow> pyfloat" where
  "monthly_cost rnd wattage_w hours_per_day price_per_kwh =
     fmul rnd (daily_cost rnd wattage_w hours_per_day price_per_kwh) DAYS_PER_MONTH"

definition monthly_kwh :: "rounding \<Rightarrow> pyfloat \<Rightarrow> pyfloat \<Rightarrow> pyfloat" where
  "monthly_kwh rnd wattage_w hours_per_day =
     fmul rnd (daily_kwh rnd wattage_w hours_per_day) DAYS_PER_MONTH"

section \<open>models.py\<close>

record Device =
  device_id :: string
  name :: string
  wattage :: pyfloat
  avg_hours_per_day :: pyfloat
  room_location :: string

section \<open>Strings and number formatting\<close>

definition newline :: char where
  "newline = CHR 0x0A"

definition quote :: char where
  "quote = CHR 0x27"

text \<open>\<^verbatim>\<open>sep.join(xs)\<close>\<close>

fun join :: "string \<Rightarrow> string list \<Rightarrow> string" where
  "join sep [] = []"
| "join sep [x] = x"
| "join sep (x # y # ys) = x @ sep @ join sep (y # ys)"

text \<open>\<^verbatim>\<open>s.ljust(w)\<close>: pads with spaces on the right, never truncates.\<close>

definition ljust :: "string \<Rightarrow> nat \<Rightarrow> string" where
  "ljust s w = s @ replicate (w - length s) CHR '' ''"

text \<open>\<^verbatim>\<open>s.split(c)\<close> for a one-character separator: one piece more than separators.\<close>

fun split_on :: "char \<Rightarrow> string \<Rightarrow> string list" where
  "split_on c [] = [[]]"
| "split_on c (x # xs) =
     (if x = c then [] # split_on c xs
      else (case split_on c xs of [] \<Rightarrow> [[x]] | piece # pieces \<Rightarrow> (x # piece) # pieces))"

definition digit_char :: "nat \<Rightarrow> char" where
  "digit_char d = char_of (48 + d)"

fun nat_digits :: "nat \<Rightarrow> string" where
  "nat_digits n =
     (if n < 10 then [digit_char n] else nat_digits (n div 10) @ [digit_char (n mod 10)])"

text \<open>
  \<^verbatim>\<open>f"{x:.kf}"\<close>: the decimal expansion of the float's exact value, correctly rounded
  (ties to even) to \<open>k\<close> places, the fraction padded with zeros, no point when \<open>k = 0\<close>.
  The float -0.0, which Python prints with a minus sign, and the texts \<^verbatim>\<open>inf\<close> and
  \<^verbatim>\<open>nan\<close> have no counterpart: the model has only the real 0 and finite numbers.
\<close>

definition format_fixed :: "nat \<Rightarrow> pyfloat \<Rightarrow> string" where
  "format_fixed k x =
     (let n = nat (round_half_even (\<bar>x\<bar> * 10 ^ k));
          int_part = nat_digits (n div 10 ^ k);
          frac = nat_digits (n mod 10 ^ k);
          frac_part = (if k = 0 then [] else ''.'' @ replicate (k - length frac) CHR ''0'' @ frac)
      in (if x < 0 then ''-'' else []) @ int_part @ frac_part)"

section \<open>reporting.py\<close>

definition power_saving_suggestion :: string where
  "power_saving_suggestion =
     ''Consider using Power Saving Mode or reducing on-time (>12h/day).''"

definition off_peak_suggestion :: string where
  "off_peak_suggestion = ''High wattage device: run during off-peak hours if available.''"

definition sanity_check_suggestion :: string where
  "sanity_check_suggestion =
     ''Usage is very low; verify hours/day is correct (data sanity check).''"

definition efficiency_suggestions :: "Device \<Rightarrow> string list" where
  "efficiency_suggestions device =
     (let suggestions = [];
          suggestions = (if 12 < avg_hours_per_day device
                         then suggestions @ [power_saving_suggestion] else suggestions);
          suggestions = (if 1000 \<le> wattage device
                         then suggestions @ [off_peak_suggestion] else suggestions);
          suggestions = (if 0 < avg_hours_per_day device \<and> avg_hours_per_day device \<le> 1 / 4
                         then suggestions @ [sanity_check_suggestion] else suggestions)
      in suggestions)"

definition alert_message :: "Device \<Rightarrow> pyfloat \<Rightarrow> pyfloat \<Rightarrow> string" where
  "alert_message d mkwh monthly_kwh_threshold =
     ''ALERT: '' @ device_id d @ '' '' @ [quote] @ name d @ [quote] @ '' in '' @ room_location d
       @ '' uses ~'' @ format_fixed 2 mkwh @ '' kWh/month (threshold ''
       @ format_fixed 2 monthly_kwh_threshold @ '').''"

fun high_usage_alerts :: "rounding \<Rightarrow> Device list \<Rightarrow> pyfloat \<Rightarrow> string list" where
  "high_usage_alerts rnd [] monthly_kwh_threshold = []"
| "high_usage_alerts rnd (d # devices) monthly_kwh_threshold =
     (let mkwh = monthly_kwh rnd (wattage d) (avg_hours_per_day d)
      in if monthly_kwh_threshold < mkwh
         then alert_message d mkwh monthly_kwh_threshold
                # high_usage_alerts rnd devices monthly_kwh_threshold
         else high_usage_alerts rnd devices monthly_kwh_threshold)"




text \<open>The result dictionary of \<^verbatim>\<open>totals\<close>, keys "daily", "weekly" and "monthly".\<close>

record Totals =
  daily :: pyfloat
  weekly :: pyfloat
  monthly :: pyfloat

text \<open>The loop of \<^verbatim>\<open>totals\<close>: three running sums, each updated once per device.\<close>

fun totals_loop ::
  "rounding \<Rightarrow> pyfloat \<Rightarrow> Device list \<Rightarrow> pyfloat \<times> pyfloat \<times> pyfloat
     \<Rightarrow> pyfloat \<times> pyfloat \<times> pyfloat" where
  "totals_loop rnd price_per_kwh [] acc = acc"
| "totals_loop rnd price_per_kwh (d # devices) (total_daily, total_weekly, total_monthly) =
     totals_loop rnd price_per_kwh devices
       (fadd rnd total_daily (daily_cost rnd (wattage d) (avg_hours_per_day d) price_per_kwh),
        fadd rnd total_weekly (weekly_cost rnd (wattage d) (avg_hours_per_day d) price_per_kwh),
        fadd rnd total_monthly (monthly_cost rnd (wattage d) (avg_hours_per_day d) price_per_kwh))"

definition totals :: "rounding \<Rightarrow> Device list \<Rightarrow> pyfloat \<Rightarrow> Totals" where
  "totals rnd devices price_per_kwh =
     (case totals_loop rnd price_per_kwh devices (0, 0, 0) of
        (total_daily, total_weekly, total_monthly) \<Rightarrow>
          \<lparr>daily = total_daily, weekly = total_weekly, monthly = total_monthly\<rparr>)"

text \<open>
  \<^verbatim>\<open>by_room[room] += cost\<close> on a \<^verbatim>\<open>defaultdict(float)\<close>: a missing key starts at 0.0. The
  dictionary keeps insertion order, which \<^verbatim>\<open>sum(room_totals.values())\<close> follows, so it
  is an association list with distinct keys.
\<close>

fun add_to_room ::
  "rounding \<Rightarrow> (string \<times> pyfloat) list \<Rightarrow> string \<Rightarrow> pyfloat \<Rightarrow> (string \<times> pyfloat) list" where
  "add_to_room rnd [] room cost = [(room, fadd rnd 0 cost)]"
| "add_to_room rnd ((k, v) # by_room) room cost =
     (if k = room then (k, fadd rnd v cost) # by_room
      else (k, v) # add_to_room rnd by_room room cost)"

definition room_monthly_totals ::
  "rounding \<Rightarrow> Device list \<Rightarrow> pyfloat \<Rightarrow> (string \<times> pyfloat) list" where
  "room_monthly_totals rnd devices price_per_kwh =
     foldl (\<lambda>by_room d. add_to_room rnd by_room (room_location d)
               (monthly_cost rnd (wattage d) (avg_hours_per_day d) price_per_kwh))
       [] devices"

text \<open>\<^verbatim>\<open>sum(xs)\<close>: left to right, from 0.\<close>

definition py_sum :: "rounding \<Rightarrow> pyfloat list \<Rightarrow> pyfloat" where
  "py_sum rnd xs = foldl (fadd rnd) 0 xs"

text \<open>\<^verbatim>\<open>device_monthly_total\<close> of \<^verbatim>\<open>build_monthly_forecast_text\<close>.\<close>

definition device_monthly_total :: "rounding \<Rightarrow> Device list \<Rightarrow> pyfloat \<Rightarrow> pyfloat" where
  "device_monthly_total rnd devices price_per_kwh =
     py_sum rnd (map snd (room_monthly_totals rnd devices price_per_kwh))"

text \<open>
  \<^verbatim>\<open>format_table\<close>. The width loop writes \<^verbatim>\<open>widths[i]\<close> for every cell of every row and
  raises IndexError on a row longer than the headers; \<^verbatim>\<open>fmt_row\<close> reads \<^verbatim>\<open>r[i]\<close> for every
  header index and raises IndexError on a shorter row.
\<close>

fun widen_row :: "nat list \<Rightarrow> nat \<Rightarrow> string list \<Rightarrow> error + nat list" where
  "widen_row widths i [] = Inr widths"
| "widen_row widths i (cell # r) =
     (if i < length widths
      then widen_row (widths[i := max (widths ! i) (length cell)]) (Suc i) r
      else Inl IndexError)"

fun widen_rows :: "nat list \<Rightarrow> string list list \<Rightarrow> error + nat list" where
  "widen_rows widths [] = Inr widths"
| "widen_rows widths (r # rows) =
     (case widen_row widths 0 r of
        Inl e \<Rightarrow> Inl e
      | Inr widths' \<Rightarrow> widen_rows widths' rows)"

definition fmt_row :: "nat list \<Rightarrow> nat \<Rightarrow> string list \<Rightarrow> error + string" where
  "fmt_row widths n r =
     (if length r < n then Inl IndexError
      else Inr (join '' | '' (map (\<lambda>i. ljust (r ! i) (widths ! i)) [0..<n])))"

fun fmt_rows :: "nat list \<Rightarrow> nat \<Rightarrow> string list list \<Rightarrow> error + string list" where
  "fmt_rows widths n [] = Inr []"
| "fmt_rows widths n (r # rows) =
     (case fmt_row widths n r of
        Inl e \<Rightarrow> Inl e
      | Inr line \<Rightarrow>
          (case fmt_rows widths n rows of
             Inl e \<Rightarrow> Inl e
           | Inr lines \<Rightarrow> Inr (line # lines)))"

definition separator :: "nat list \<Rightarrow> string" where
  "separator widths = join ''-+-'' (map (\<lambda>w. replicate w CHR ''-'') widths)"

text \<open>The list \<^verbatim>\<open>out\<close> of \<^verbatim>\<open>format_table\<close>, before it is joined.\<close>

definition format_table_out :: "string list \<Rightarrow> string list list \<Rightarrow> error + string list" where
  "format_table_out headers rows =
     (case widen_rows (map length headers) rows of
        Inl e \<Rightarrow> Inl e
      | Inr widths \<Rightarrow>
          (case fmt_row widths (length headers) headers of
             Inl e \<Rightarrow> Inl e
           | Inr header_line \<Rightarrow>
               (case fmt_rows widths (length headers) rows of
                  Inl e \<Rightarrow> Inl e
                | Inr lines \<Rightarrow> Inr (header_line # separator widths # lines))))"

definition format_table :: "string list \<Rightarrow> string list list \<Rightarrow> error + string" where
  "format_table headers rows =
     (case format_table_out headers rows of
        Inl e \<Rightarrow> Inl e
      | Inr out \<Rightarrow> Inr (join [newline] out))"

text \<open>
  The layout the specification describes for \<^verbatim>\<open>format_table\<close>: the width of a column is the
  maximum of its header's length and the lengths of all its cells; a line is the cells,
  left-justified to the column widths, joined by \<^verbatim>\<open>" | "\<close>; the table is the header line,
  the separator and one line per row.
\<close>

definition column_width :: "string list \<Rightarrow> string list list \<Rightarrow> nat \<Rightarrow> nat" where
  "column_width headers rows i =
     Max (insert (length (headers ! i)) ((\<lambda>r. length (r ! i)) ` set rows))"

definition table_line :: "nat list \<Rightarrow> string list \<Rightarrow> string" where
  "table_line widths r = join '' | '' (map (\<lambda>(cell, w). ljust cell w) (zip r widths))"

definition table_layout :: "string list \<Rightarrow> string list list \<Rightarrow> string list" where
  "table_layout headers rows =
     (let widths = map (column_width headers rows) [0..<length headers]
      in table_line widths headers # separator widths # map (table_line widths) rows)"

text \<open>What one pass of the width loop over a full row does to the widths.\<close>

definition widen :: "nat list \<Rightarrow> string list \<Rightarrow> nat list" where
  "widen widths r = map (\<lambda>(w, cell). max w (length cell)) (zip widths r)"






text \<open>
  \<^verbatim>\<open>build_predictions_text\<close>: one triple \<^verbatim>\<open>(mcost, d, mkwh)\<close> per device, in input order.
\<close>

definition prediction_entry :: "rounding \<Rightarrow> pyfloat \<Rightarrow> Device \<Rightarrow> pyfloat \<times> Device \<times> pyfloat" where
  "prediction_entry rnd price_per_kwh d =
     (let mkwh = monthly_kwh rnd (wattage d) (avg_hours_per_day d);
          mcost = fmul rnd mkwh price_per_kwh
      in (mcost, d, mkwh))"

definition preds :: "rounding \<Rightarrow> Device list \<Rightarrow> pyfloat \<Rightarrow> (pyfloat \<times> Device \<times> pyfloat) list" where
  "preds rnd devices price_per_kwh = map (prediction_entry rnd price_per_kwh) devices"

text \<open>
  \<^verbatim>\<open>xs.sort(reverse=True, key=key)\<close>: Python reverses the list, sorts it with its stable
  ascending sort, and reverses the result, so that equal keys keep their order.
\<close>

definition sort_reverse_key :: "('a \<Rightarrow> pyfloat) \<Rightarrow> 'a list \<Rightarrow> 'a list" where
  "sort_reverse_key key xs = rev (sort_key key (rev xs))"

definition top3 :: "rounding \<Rightarrow> Device list \<Rightarrow> pyfloat \<Rightarrow> (pyfloat \<times> Device \<times> pyfloat) list" where
  "top3 rnd devices price_per_kwh =
     take 3 (sort_reverse_key fst (preds rnd devices price_per_kwh))"

fun ranked_lines :: "nat \<Rightarrow> (pyfloat \<times> Device \<times> pyfloat) list \<Rightarrow> string list" where
  "ranked_lines rank [] = []"
| "ranked_lines rank ((mcost, d, mkwh) # rest) =
     (nat_digits rank @ ''. '' @ device_id d @ '' '' @ name d @ '' ('' @ room_location d
        @ '') -> '' @ format_fixed 2 mkwh @ '' kWh/mo, '' @ format_fixed 2 mcost @ ''/mo'')
     # ranked_lines (Suc rank) rest"

definition build_predictions_text :: "rounding \<Rightarrow> Device list \<Rightarrow> pyfloat \<Rightarrow> string" where
  "build_predictions_text rnd devices price_per_kwh =
     join [newline]
       ([''PREDICTIONS / INSIGHTS'', [], ''Top devices by expected monthly cost:'']
        @ ranked_lines 1 (top3 rnd devices price_per_kwh)
        @ [[],
           ''Note: This is a simple projection based on average daily hours (no time-series learning).''])"

section \<open>main.py\<close>

text \<open>The alerts of \<^verbatim>\<open>main\<close>: the engine is only called for a positive threshold.\<close>

definition main_alerts :: "rounding \<Rightarrow> Device list \<Rightarrow> pyfloat \<Rightarrow> string list" where
  "main_alerts rnd devices threshold_kwh =
     (if 0 < threshold_kwh then high_usage_alerts rnd devices threshold_kwh else [])"

section \<open>Example devices\<close>

definition kitchen1 :: Device where
  "kitchen1 = \<lparr>device_id = ''D1'', name = ''Heater'', wattage = 1000, avg_hours_per_day = 1,
     room_location = ''Kitchen''\<rparr>"

definition kitchen2 :: Device where
  "kitchen2 = \<lparr>device_id = ''D2'', name = ''Boiler'', wattage = 1000, avg_hours_per_day = 2,
     room_location = ''Kitchen''\<rparr>"

section \<open>The float model\<close>

lemmas cost_defs = daily_kwh_def cost_for_kwh_def daily_cost_def weekly_cost_def monthly_cost_def
  monthly_kwh_def fmul_def fdiv_def fadd_def DAYS_PER_WEEK_def DAYS_PER_MONTH_def

lemmas b64_defs = binary64_def quantum_exp_def pow2_def round_half_even_def Let_def

lemma pow2_powi: "pow2 k = 2 powi k"
  by (simp add: pow2_def power_int_def inverse_eq_divide power_one_over)

lemma pow2_pos: "0 < pow2 k"
  by (simp add: pow2_powi)

lemma pow2_mono: "j \<le> k \<Longrightarrow> pow2 j \<le> pow2 k"
  by (simp add: pow2_powi power_int_increasing)

lemma bisect_bounds:
  "pow2 (q + 52) \<le> a \<Longrightarrow> a < pow2 (q + 2 ^ n + 52) \<Longrightarrow>
     pow2 (foldl (\<lambda>q s. if pow2 (q + s + 52) \<le> a then q + s else q) q
             (map (\<lambda>i. 2 ^ i) (rev [0..<n])) + 52) \<le> a
     \<and> a < pow2 (foldl (\<lambda>q s. if pow2 (q + s + 52) \<le> a then q + s else q) q
             (map (\<lambda>i. 2 ^ i) (rev [0..<n])) + 53)"
proof (induction n arbitrary: q)
  case 0
  then show ?case by (simp add: add.commute)
next
  case (Suc n)
  show ?case
  proof (cases "pow2 (q + 2 ^ n + 52) \<le> a")
    case True
    have eq: "q + 2 ^ Suc n + 52 = q + 2 ^ n + 2 ^ n + 52" by simp
    have "a < pow2 (q + 2 ^ n + 2 ^ n + 52)" using Suc.prems(2) unfolding eq .
    with True Suc.IH [of "q + 2 ^ n"] show ?thesis by simp
  next
    case False
    then have "a < pow2 (q + 2 ^ n + 52)" by simp
    with False Suc.prems(1) Suc.IH [of q] show ?thesis by simp
  qed
qed

lemma bisect_steps:
  "[1024, 512, 256, 128, 64, 32, 16, 8, 4, 2, 1 :: int] = map (\<lambda>i. 2 ^ i) (rev [0..<11])"
  by (simp add: upt_conv_Cons)

text \<open>
  In the normal range the quantum leaves a significand of 53 bits; below it the quantum
  is that of the subnormal floats.
\<close>

lemma quantum_exp_normal:
  assumes "pow2 (- 1022) \<le> a" "a < pow2 1024"
  shows "pow2 (quantum_exp a + 52) \<le> a \<and> a < pow2 (quantum_exp a + 53)"
proof -
  have "a < pow2 1026" using assms(2) pow2_mono [of 1024 1026] by simp
  then have hi: "a < pow2 (- 1074 + 2 ^ 11 + 52)" by simp
  have lo: "pow2 (- 1074 + 52) \<le> a" using assms(1) by simp
  show ?thesis
    unfolding quantum_exp_def bisect_steps using lo hi by (rule bisect_bounds)
qed

lemma quantum_exp_subnormal:
  assumes "a < pow2 (- 1022)"
  shows "quantum_exp a = - 1074"
proof -
  have step: "\<not> pow2 k \<le> a" if "- 1022 \<le> k" for k
    using assms pow2_mono [of "- 1022" k] that by simp
  show ?thesis
    unfolding quantum_exp_def by (simp add: step)
qed

text \<open>
  \<open>binary64\<close> rounds to a nearest multiple of the quantum: the error is at most half a
  quantum, and at most \<open>2 powr -53\<close> relative to the rounded number in the normal range.
\<close>

lemma round_half_even_error: "\<bar>of_int (round_half_even y) - y\<bar> \<le> 1 / 2"
  unfolding round_half_even_def Let_def by (auto; linarith)

lemma binary64_error: "\<bar>binary64 x - x\<bar> \<le> pow2 (quantum_exp \<bar>x\<bar>) / 2"
proof -
  let ?u = "pow2 (quantum_exp \<bar>x\<bar>)"
  let ?r = "of_int (round_half_even (x / ?u)) :: real"
  have u: "0 < ?u" by (rule pow2_pos)
  have "binary64 x - x = (?r - x / ?u) * ?u"
    using u by (simp add: binary64_def Let_def left_diff_distrib)
  then have "\<bar>binary64 x - x\<bar> = \<bar>?r - x / ?u\<bar> * ?u"
    using u by (simp add: abs_mult)
  also have "\<dots> \<le> 1 / 2 * ?u"
    using u round_half_even_error [of "x / ?u"] by (intro mult_right_mono) simp_all
  finally show ?thesis by simp
qed

lemma binary64_relative_error:
  assumes "pow2 (- 1022) \<le> \<bar>x\<bar>" "\<bar>x\<bar> < pow2 1024"
  shows "\<bar>binary64 x - x\<bar> \<le> \<bar>x\<bar> / 2 ^ 53"
proof -
  have "pow2 (quantum_exp \<bar>x\<bar> + 52) \<le> \<bar>x\<bar>"
    using quantum_exp_normal [OF assms] by simp
  then have "pow2 (quantum_exp \<bar>x\<bar>) * 2 ^ 52 \<le> \<bar>x\<bar>"
    by (simp add: pow2_powi power_int_add)
  then have "pow2 (quantum_exp \<bar>x\<bar>) / 2 \<le> \<bar>x\<bar> / 2 ^ 53" by simp
  with binary64_error [of x] show ?thesis by linarith
qed

lemma binary64_zero: "binary64 0 = 0"
  by (simp add: binary64_def round_half_even_def)

lemma binary64_in_range: "in_float_range x \<Longrightarrow> \<bar>binary64 x - x\<bar> \<le> \<bar>x\<bar> / 2 ^ 53"
  unfolding in_float_range_def using binary64_relative_error [of x] by (auto simp: binary64_zero)

text \<open>
  Two roundings in a row, of a number and then of its product with \<open>c\<close>, and the two
  ways the program multiplies the daily energy \<open>k\<close> by 30 and by the price.
\<close>

lemma two_roundings:
  fixes a c m r u :: real
  assumes m: "\<bar>m - a\<bar> \<le> u * \<bar>a\<bar>" and r: "\<bar>r - m * c\<bar> \<le> u * \<bar>m * c\<bar>" and u: "0 \<le> u"
  shows "\<bar>r - a * c\<bar> \<le> (2 * u + u * u) * \<bar>a * c\<bar>"
proof -
  have "\<bar>m * c - a * c\<bar> = \<bar>m - a\<bar> * \<bar>c\<bar>"
    by (simp add: abs_mult [symmetric] left_diff_distrib)
  also have "\<dots> \<le> u * \<bar>a\<bar> * \<bar>c\<bar>" using m by (intro mult_right_mono) simp_all
  finally have d: "\<bar>m * c - a * c\<bar> \<le> u * \<bar>a * c\<bar>" by (simp add: abs_mult mult.assoc)
  have "\<bar>m * c\<bar> \<le> \<bar>a * c\<bar> + \<bar>m * c - a * c\<bar>" by linarith
  with d have "\<bar>m * c\<bar> \<le> \<bar>a * c\<bar> + u * \<bar>a * c\<bar>" by linarith
  then have "u * \<bar>m * c\<bar> \<le> u * (\<bar>a * c\<bar> + u * \<bar>a * c\<bar>)" using u by (rule mult_left_mono)
  with r have "\<bar>r - m * c\<bar> \<le> u * \<bar>a * c\<bar> + u * u * \<bar>a * c\<bar>" by (simp add: algebra_simps)
  moreover have "\<bar>r - a * c\<bar> \<le> \<bar>r - m * c\<bar> + \<bar>m * c - a * c\<bar>" by linarith
  ultimately have "\<bar>r - a * c\<bar> \<le> u * \<bar>a * c\<bar> + u * u * \<bar>a * c\<bar> + u * \<bar>a * c\<bar>"
    using d by linarith
  then show ?thesis by (simp add: algebra_simps)
qed

lemma prediction_key_close:
  fixes k p :: real
  assumes "in_float_range (k * 30)" "in_float_range (binary64 (k * 30) * p)"
    and "in_float_range (k * p)" "in_float_range (binary64 (k * p) * 30)"
  shows "\<bar>binary64 (binary64 (k * 30) * p) - binary64 (binary64 (k * p) * 30)\<bar>
           \<le> 5 / 2 ^ 53 * \<bar>k * 30 * p\<bar>"
proof -
  let ?u = "1 / 2 ^ 53 :: real"
  have key: "\<bar>binary64 (binary64 (k * 30) * p) - k * 30 * p\<bar> \<le> (2 * ?u + ?u * ?u) * \<bar>k * 30 * p\<bar>"
    using binary64_in_range [OF assms(1)] binary64_in_range [OF assms(2)]
    by (intro two_roundings) simp_all
  have eq: "k * p * 30 = k * 30 * p" by simp
  have "\<bar>binary64 (binary64 (k * p) * 30) - k * p * 30\<bar> \<le> (2 * ?u + ?u * ?u) * \<bar>k * p * 30\<bar>"
    using binary64_in_range [OF assms(3)] binary64_in_range [OF assms(4)]
    by (intro two_roundings) simp_all
  then have cost: "\<bar>binary64 (binary64 (k * p) * 30) - k * 30 * p\<bar> \<le> (2 * ?u + ?u * ?u) * \<bar>k * 30 * p\<bar>"
    unfolding eq .
  define t where "t = \<bar>k * 30 * p\<bar>"
  define x where "x = binary64 (binary64 (k * 30) * p) - k * 30 * p"
  define y where "y = binary64 (binary64 (k * p) * 30) - k * 30 * p"
  have t: "0 \<le> t" by (simp add: t_def)
  have x: "\<bar>x\<bar> \<le> (2 * ?u + ?u * ?u) * t" using key by (simp only: x_def t_def)
  have y: "\<bar>y\<bar> \<le> (2 * ?u + ?u * ?u) * t" using cost by (simp only: y_def t_def)
  have "(2 * ?u + ?u * ?u) * t \<le> 5 / 2 * ?u * t"
    using t by (intro mult_right_mono) simp_all
  with x y have "\<bar>x - y\<bar> \<le> 5 * ?u * t" by linarith
  moreover have "x - y = binary64 (binary64 (k * 30) * p) - binary64 (binary64 (k * p) * 30)"
    by (simp add: x_def y_def)
  ultimately show ?thesis by (simp only: t_def)
qed

text \<open>The literal 0.10 is the float \<open>0.1000000000000000055511151231257827\<close>.\<close>

lemma binary64_tenth: "binary64 (1 / 10) = 3602879701896397 / 36028797018963968"
  by (simp add: b64_defs)

lemma daily_kwh_binary64_example: "daily_kwh binary64 1500 13 = 39 / 2"
  by (simp add: cost_defs b64_defs)

text \<open>Python prints these three floats as 1.9500000000000002, 13.650000000000002 and
  58.50000000000001.\<close>

lemma daily_cost_binary64_example:
  "daily_cost binary64 1500 13 (binary64 (1 / 10)) = 2195504818343117 / 1125899906842624"
  by (simp add: cost_defs b64_defs)

lemma weekly_cost_binary64_example:
  "weekly_cost binary64 1500 13 (binary64 (1 / 10)) = 3842133432100455 / 281474976710656"
  by (simp add: cost_defs b64_defs)

lemma monthly_cost_binary64_example:
  "monthly_cost binary64 1500 13 (binary64 (1 / 10)) = 8233143068786689 / 140737488355328"
  by (simp add: cost_defs b64_defs)

section \<open>The cost model\<close>

text \<open>
  Claim C1, as the code has it. Each function of the cost model is the formula of the
  claim, every operation being one float operation: \<open>daily_kwh = (w * h) / 1000\<close>,
  \<open>cost_for_kwh = k * p\<close>, \<open>daily_cost = daily_kwh * p\<close>, \<open>weekly_cost = 7 * daily_cost\<close>,
  \<open>monthly_cost = 30 * daily_cost\<close> and \<open>monthly_kwh = 30 * daily_kwh\<close>, for every rounding
  and all arguments; without rounding these are the formulas on the reals. For
  \<open>w = 1500\<close>, \<open>h = 13\<close>, \<open>p = 0.10\<close> the daily energy is 19.5 exactly, and the daily,
  weekly and monthly costs are 1.95, 13.65 and 58.5 in exact arithmetic and within
  \<open>10 powr -12\<close> of them in binary64.
\<close>

theorem cost_model_formulas:
  "daily_kwh rnd w h = fdiv rnd (fmul rnd w h) 1000
   \<and> cost_for_kwh rnd k p = fmul rnd k p
   \<and> daily_cost rnd w h p = fmul rnd (daily_kwh rnd w h) p
   \<and> weekly_cost rnd w h p = fmul rnd 7 (daily_cost rnd w h p)
   \<and> monthly_cost rnd w h p = fmul rnd 30 (daily_cost rnd w h p)
   \<and> monthly_kwh rnd w h = fmul rnd 30 (daily_kwh rnd w h)
   \<and> daily_kwh exact w h = w * h / 1000
   \<and> cost_for_kwh exact k p = k * p
   \<and> daily_cost exact w h p = daily_kwh exact w h * p
   \<and> weekly_cost exact w h p = 7 * daily_cost exact w h p
   \<and> monthly_cost exact w h p = 30 * daily_cost exact w h p
   \<and> monthly_kwh exact w h = 30 * daily_kwh exact w h
   \<and> daily_kwh exact 1500 13 = 39 / 2
   \<and> daily_cost exact 1500 13 (exact (1 / 10)) = 195 / 100
   \<and> weekly_cost exact 1500 13 (exact (1 / 10)) = 1365 / 100
   \<and> monthly_cost exact 1500 13 (exact (1 / 10)) = 117 / 2
   \<and> daily_kwh binary64 1500 13 = 39 / 2
   \<and> \<bar>daily_cost binary64 1500 13 (binary64 (1 / 10)) - 195 / 100\<bar> < 1 / 10 ^ 12
   \<and> \<bar>weekly_cost binary64 1500 13 (binary64 (1 / 10)) - 1365 / 100\<bar> < 1 / 10 ^ 12
   \<and> \<bar>monthly_cost binary64 1500 13 (binary64 (1 / 10)) - 117 / 2\<bar> < 1 / 10 ^ 12"
proof -
  have general: "daily_kwh rnd w h = fdiv rnd (fmul rnd w h) 1000
      \<and> cost_for_kwh rnd k p = fmul rnd k p
      \<and> daily_cost rnd w h p = fmul rnd (daily_kwh rnd w h) p
      \<and> weekly_cost rnd w h p = fmul rnd 7 (daily_cost rnd w h p)
      \<and> monthly_cost rnd w h p = fmul rnd 30 (daily_cost rnd w h p)
      \<and> monthly_kwh rnd w h = fmul rnd 30 (daily_kwh rnd w h)"
    by (simp add: cost_defs mult.commute)
  have ideal: "daily_kwh exact w h = w * h / 1000
      \<and> cost_for_kwh exact k p = k * p
      \<and> daily_cost exact w h p = daily_kwh exact w h * p
      \<and> weekly_cost exact w h p = 7 * daily_cost exact w h p
      \<and> monthly_cost exact w h p = 30 * daily_cost exact w h p
      \<and> monthly_kwh exact w h = 30 * daily_kwh exact w h"
    by (simp add: cost_defs exact_def)
  have ideal_example: "daily_kwh exact 1500 13 = 39 / 2
      \<and> daily_cost exact 1500 13 (exact (1 / 10)) = 195 / 100
      \<and> weekly_cost exact 1500 13 (exact (1 / 10)) = 1365 / 100
      \<and> monthly_cost exact 1500 13 (exact (1 / 10)) = 117 / 2"
    by (simp add: cost_defs exact_def)
  have float_example: "daily_kwh binary64 1500 13 = 39 / 2
      \<and> \<bar>daily_cost binary64 1500 13 (binary64 (1 / 10)) - 195 / 100\<bar> < 1 / 10 ^ 12
      \<and> \<bar>weekly_cost binary64 1500 13 (binary64 (1 / 10)) - 1365 / 100\<bar> < 1 / 10 ^ 12
      \<and> \<bar>monthly_cost binary64 1500 13 (binary64 (1 / 10)) - 117 / 2\<bar> < 1 / 10 ^ 12"
    by (simp add: daily_kwh_binary64_example daily_cost_binary64_example
        weekly_cost_binary64_example monthly_cost_binary64_example)
  from general ideal ideal_example float_example show ?thesis by blast
qed

text \<open>
  The example values of C1 are not the floats the code returns: in binary64 the three
  costs differ from the floats 1.95, 13.65 and 58.5 in the last place.
\<close>

theorem example_costs_not_bitwise:
  "daily_cost binary64 1500 13 (binary64 (1 / 10)) \<noteq> binary64 (195 / 100)
   \<and> weekly_cost binary64 1500 13 (binary64 (1 / 10)) \<noteq> binary64 (1365 / 100)
   \<and> monthly_cost binary64 1500 13 (binary64 (1 / 10)) \<noteq> binary64 (117 / 2)"
  by (simp add: daily_cost_binary64_example weekly_cost_binary64_example
      monthly_cost_binary64_example) (simp add: b64_defs)

section \<open>Validation\<close>

text \<open>
  Claim C7. \<open>validate_price_per_kwh\<close> raises exactly when the price is at most 0, and
  \<open>validate_device_values\<close> raises exactly when the wattage is at most 0 or the hours are
  below 0 or above 24; otherwise each returns normally (None).
\<close>

theorem validators_raise_iff:
  "isl (validate_price_per_kwh price) = (price \<le> 0)
   \<and> (validate_price_per_kwh price = Inr ()) = (0 < price)
   \<and> isl (validate_device_values w h) = (w \<le> 0 \<or> h < 0 \<or> 24 < h)
   \<and> (validate_device_values w h = Inr ()) = (0 < w \<and> 0 \<le> h \<and> h \<le> 24)"
  by (auto simp: validate_price_per_kwh_def validate_device_values_def)

section \<open>Efficiency suggestions\<close>

lemma efficiency_suggestions_rules:
  "efficiency_suggestions d =
     (if 12 < avg_hours_per_day d then [power_saving_suggestion] else [])
     @ (if 1000 \<le> wattage d then [off_peak_suggestion] else [])
     @ (if 0 < avg_hours_per_day d \<and> avg_hours_per_day d \<le> 1 / 4
        then [sanity_check_suggestion] else [])"
  by (simp add: efficiency_suggestions_def Let_def)

text \<open>
  Claim C9, as the code has it. The three rules are tested one after the other, each on
  its own, and their suggestions come in the order 1, 2, 3. Rules 1 and 3 exclude each
  other (more than 12 hours, at most a quarter of an hour), so at most two suggestions
  are returned: rules 1 and 2 fire together for 1500 W and 13 hours (and rule 3 does
  not), rules 2 and 3 for 2000 W and a quarter of an hour.
\<close>

theorem efficiency_suggestions_three_rules:
  "efficiency_suggestions d =
     (if 12 < avg_hours_per_day d then [power_saving_suggestion] else [])
     @ (if 1000 \<le> wattage d then [off_peak_suggestion] else [])
     @ (if 0 < avg_hours_per_day d \<and> avg_hours_per_day d \<le> 1 / 4
        then [sanity_check_suggestion] else [])
   \<and> length (efficiency_suggestions d) \<le> 2
   \<and> efficiency_suggestions
        \<lparr>device_id = ''D1'', name = ''Oven'', wattage = 1500, avg_hours_per_day = 13,
         room_location = ''Kitchen''\<rparr>
       = [power_saving_suggestion, off_peak_suggestion]
   \<and> efficiency_suggestions
        \<lparr>device_id = ''D2'', name = ''Kettle'', wattage = 2000, avg_hours_per_day = 1 / 4,
         room_location = ''Kitchen''\<rparr>
       = [off_peak_suggestion, sanity_check_suggestion]"
  by (simp add: efficiency_suggestions_rules)

text \<open>No device makes all three rules fire.\<close>

theorem no_device_fires_all_three_rules:
  "\<not> (\<exists>d. efficiency_suggestions d
          = [power_saving_suggestion, off_peak_suggestion, sanity_check_suggestion])"
  by (auto simp: efficiency_suggestions_rules split: if_splits)

section \<open>The ranking key of the predictions\<close>

text \<open>
  Claim C10, as the code has it. The ranking key \<open>mcost = monthly_kwh(w, h) * p\<close> and
  \<open>monthly_cost(w, h, p)\<close> multiply the daily energy by 30 and by the price in opposite
  orders. They are equal up to floating-point rounding: equal in exact arithmetic, and
  in binary64 within \<open>5 * 2 powr -53\<close> of the product, relative to it, when none of the
  four products overflows or underflows.
\<close>

theorem prediction_key_is_monthly_cost_up_to_rounding:
  "fst (prediction_entry exact p d) = monthly_cost exact (wattage d) (avg_hours_per_day d) p
   \<and> fmul exact (monthly_kwh exact w h) p = monthly_cost exact w h p
   \<and> fst (prediction_entry rnd p d)
       = fmul rnd (fmul rnd (daily_kwh rnd (wattage d) (avg_hours_per_day d)) 30) p
   \<and> monthly_cost rnd (wattage d) (avg_hours_per_day d) p
       = fmul rnd (fmul rnd (daily_kwh rnd (wattage d) (avg_hours_per_day d)) p) 30
   \<and> (in_float_range (daily_kwh binary64 w h * 30)
        \<and> in_float_range (monthly_kwh binary64 w h * p)
        \<and> in_float_range (daily_kwh binary64 w h * p)
        \<and> in_float_range (daily_cost binary64 w h p * 30) \<longrightarrow>
        \<bar>fmul binary64 (monthly_kwh binary64 w h) p - monthly_cost binary64 w h p\<bar>
          \<le> 5 / 2 ^ 53 * \<bar>daily_kwh binary64 w h * 30 * p\<bar>)"
proof -
  have algebra: "fst (prediction_entry exact p d)
        = monthly_cost exact (wattage d) (avg_hours_per_day d) p
      \<and> fmul exact (monthly_kwh exact w h) p = monthly_cost exact w h p
      \<and> fst (prediction_entry rnd p d)
        = fmul rnd (fmul rnd (daily_kwh rnd (wattage d) (avg_hours_per_day d)) 30) p
      \<and> monthly_cost rnd (wattage d) (avg_hours_per_day d) p
        = fmul rnd (fmul rnd (daily_kwh rnd (wattage d) (avg_hours_per_day d)) p) 30"
    by (simp add: prediction_entry_def cost_defs exact_def Let_def)
  have close: "in_float_range (daily_kwh binary64 w h * 30)
        \<and> in_float_range (monthly_kwh binary64 w h * p)
        \<and> in_float_range (daily_kwh binary64 w h * p)
        \<and> in_float_range (daily_cost binary64 w h p * 30) \<longrightarrow>
        \<bar>fmul binary64 (monthly_kwh binary64 w h) p - monthly_cost binary64 w h p\<bar>
          \<le> 5 / 2 ^ 53 * \<bar>daily_kwh binary64 w h * 30 * p\<bar>"
    unfolding monthly_kwh_def monthly_cost_def daily_cost_def cost_for_kwh_def fmul_def
      DAYS_PER_MONTH_def
    using prediction_key_close [of "daily_kwh binary64 w h" p] by blast
  from algebra close show ?thesis by blast
qed

theorem prediction_key_is_monthly_cost_up_to_rounding_witness:
  "in_float_range (daily_kwh binary64 1500 13 * 30)
   \<and> in_float_range (monthly_kwh binary64 1500 13 * binary64 (1 / 10))
   \<and> in_float_range (daily_kwh binary64 1500 13 * binary64 (1 / 10))
   \<and> in_float_range (daily_cost binary64 1500 13 (binary64 (1 / 10)) * 30)
   \<and> \<bar>fmul binary64 (monthly_kwh binary64 1500 13) (binary64 (1 / 10))
        - monthly_cost binary64 1500 13 (binary64 (1 / 10))\<bar>
        \<le> 5 / 2 ^ 53 * \<bar>daily_kwh binary64 1500 13 * 30 * binary64 (1 / 10)\<bar>"
proof -
  have k: "daily_kwh binary64 1500 13 = 39 / 2"
    and m: "monthly_kwh binary64 1500 13 = 585"
    and c: "daily_cost binary64 1500 13 (binary64 (1 / 10)) = 2195504818343117 / 1125899906842624"
    by (simp_all add: cost_defs b64_defs)
  have range: "in_float_range (daily_kwh binary64 1500 13 * 30)
      \<and> in_float_range (monthly_kwh binary64 1500 13 * binary64 (1 / 10))
      \<and> in_float_range (daily_kwh binary64 1500 13 * binary64 (1 / 10))
      \<and> in_float_range (daily_cost binary64 1500 13 (binary64 (1 / 10)) * 30)"
    unfolding k m c by (simp add: in_float_range_def pow2_def binary64_tenth)
  with prediction_key_is_monthly_cost_up_to_rounding [of "binary64 (1 / 10)" undefined 1500 13 binary64]
  show ?thesis by blast
qed

text \<open>
  In binary64 the two differ at 1500 W, 13 hours and the price 0.10: the key is 58.5,
  the monthly cost 58.50000000000001.
\<close>

theorem prediction_key_not_bitwise:
  "fmul binary64 (monthly_kwh binary64 1500 13) (binary64 (1 / 10))
     \<noteq> monthly_cost binary64 1500 13 (binary64 (1 / 10))"
  by (simp add: cost_defs b64_defs)

section \<open>High usage alerts\<close>

lemma high_usage_alerts_filter:
  "high_usage_alerts rnd devices T =
     map (\<lambda>d. alert_message d (monthly_kwh rnd (wattage d) (avg_hours_per_day d)) T)
       (filter (\<lambda>d. T < monthly_kwh rnd (wattage d) (avg_hours_per_day d)) devices)"
  by (induction devices) (simp_all add: Let_def)

text \<open>
  Claim C2, as the code has it. \<open>high_usage_alerts\<close> takes the threshold literally: for
  every threshold \<open>T\<close>, also 0, the alerts are the messages of exactly the devices whose
  monthly kWh is strictly above \<open>T\<close>, in input order. The empty result at threshold 0 is
  the caller's: \<open>main\<close> calls the engine only when the threshold is positive, and has no
  alerts otherwise.
\<close>

theorem alerts_iff_above_threshold:
  "high_usage_alerts rnd devices T =
     map (\<lambda>d. alert_message d (monthly_kwh rnd (wattage d) (avg_hours_per_day d)) T)
       (filter (\<lambda>d. T < monthly_kwh rnd (wattage d) (avg_hours_per_day d)) devices)
   \<and> main_alerts rnd devices 0 = []
   \<and> main_alerts rnd devices T = (if 0 < T then high_usage_alerts rnd devices T else [])"
  by (simp add: high_usage_alerts_filter main_alerts_def)

text \<open>Called with threshold 0, the engine alerts on a device of 1500 W used 13 hours a day.\<close>

theorem engine_alerts_at_threshold_zero:
  "high_usage_alerts binary64
     [\<lparr>device_id = ''D1'', name = ''Oven'', wattage = 1500, avg_hours_per_day = 13,
       room_location = ''Kitchen''\<rparr>] 0 \<noteq> []"
  by (simp add: cost_defs b64_defs)

section \<open>Fleet totals\<close>

lemma totals_loop_folds:
  "totals_loop rnd p devices (a, b, c) =
     (foldl (fadd rnd) a (map (\<lambda>d. daily_cost rnd (wattage d) (avg_hours_per_day d) p) devices),
      foldl (fadd rnd) b (map (\<lambda>d. weekly_cost rnd (wattage d) (avg_hours_per_day d) p) devices),
      foldl (fadd rnd) c (map (\<lambda>d. monthly_cost rnd (wattage d) (avg_hours_per_day d) p) devices))"
  by (induction devices arbitrary: a b c) simp_all

lemma foldl_fadd_exact: "foldl (fadd exact) a xs = a + sum_list xs"
  by (induction xs arbitrary: a) (simp_all add: fadd_def exact_def)

lemma py_sum_exact: "py_sum exact xs = sum_list xs"
  by (simp add: py_sum_def foldl_fadd_exact)

lemma totals_sums:
  "totals rnd devices p =
     \<lparr>daily = py_sum rnd (map (\<lambda>d. daily_cost rnd (wattage d) (avg_hours_per_day d) p) devices),
      weekly = py_sum rnd (map (\<lambda>d. weekly_cost rnd (wattage d) (avg_hours_per_day d) p) devices),
      monthly = py_sum rnd (map (\<lambda>d. monthly_cost rnd (wattage d) (avg_hours_per_day d) p) devices)\<rparr>"
  by (simp add: totals_def totals_loop_folds py_sum_def)


section \<open>The table layout\<close>

lemma widen_row_ok:
  "i + length r = length widths \<Longrightarrow>
     widen_row widths i r = Inr (take i widths @ widen (drop i widths) r)"
proof (induction r arbitrary: widths i)
  case Nil
  then show ?case by (simp add: widen_def)
next
  case (Cons cell r)
  then have i: "i < length widths" by simp
  let ?ws = "widths[i := max (widths ! i) (length cell)]"
  have "Suc i + length r = length ?ws" using Cons.prems by simp
  then have "widen_row ?ws (Suc i) r = Inr (take (Suc i) ?ws @ widen (drop (Suc i) ?ws) r)"
    by (rule Cons.IH)
  moreover have "take (Suc i) ?ws = take i widths @ [max (widths ! i) (length cell)]"
    using i by (simp add: take_Suc_conv_app_nth)
  moreover have "drop (Suc i) ?ws = drop (Suc i) widths" by simp
  moreover have "drop i widths = widths ! i # drop (Suc i) widths"
    using i by (simp add: Cons_nth_drop_Suc)
  ultimately show ?case using i by (simp add: widen_def)
qed

lemma widen_row_full:
  "length r = length widths \<Longrightarrow> widen_row widths 0 r = Inr (widen widths r)"
  using widen_row_ok [of 0 r widths] by simp

lemma length_widen: "length r = length widths \<Longrightarrow> length (widen widths r) = length widths"
  by (simp add: widen_def)

lemma widen_rows_ok:
  "\<forall>r\<in>set rows. length r = length widths \<Longrightarrow>
     widen_rows widths rows = Inr (foldl widen widths rows)"
  by (induction rows arbitrary: widths) (simp_all add: widen_row_full length_widen)

lemma length_foldl_widen:
  "\<forall>r\<in>set rows. length r = length widths \<Longrightarrow> length (foldl widen widths rows) = length widths"
  by (induction rows arbitrary: widths) (simp_all add: length_widen)

lemma nth_foldl_widen:
  "\<forall>r\<in>set rows. length r = length widths \<Longrightarrow> i < length widths \<Longrightarrow>
     foldl widen widths rows ! i = Max (insert (widths ! i) ((\<lambda>r. length (r ! i)) ` set rows))"
proof (induction rows arbitrary: widths)
  case Nil
  then show ?case by simp
next
  case (Cons r rows)
  let ?ws = "widen widths r"
  have len: "length ?ws = length widths" using Cons.prems by (simp add: length_widen)
  have nth: "?ws ! i = max (widths ! i) (length (r ! i))"
    using Cons.prems by (simp add: widen_def)
  have "foldl widen ?ws rows ! i = Max (insert (?ws ! i) ((\<lambda>r. length (r ! i)) ` set rows))"
    using Cons.prems len by (intro Cons.IH) simp_all
  also have "\<dots> = Max (insert (widths ! i) ((\<lambda>r. length (r ! i)) ` set (r # rows)))"
    unfolding nth
    by (cases "rows = []") (simp_all add: max.assoc max.commute max.left_commute)
  finally show ?case by simp
qed

lemma final_widths:
  assumes "\<forall>r\<in>set rows. length r = length headers"
  shows "foldl widen (map length headers) rows = map (column_width headers rows) [0..<length headers]"
proof (rule nth_equalityI)
  show "length (foldl widen (map length headers) rows)
      = length (map (column_width headers rows) [0..<length headers])"
    using assms by (simp add: length_foldl_widen)
next
  fix i assume "i < length (foldl widen (map length headers) rows)"
  then have i: "i < length headers" using assms by (simp add: length_foldl_widen)
  then show "foldl widen (map length headers) rows ! i
      = map (column_width headers rows) [0..<length headers] ! i"
    using assms by (simp add: nth_foldl_widen column_width_def)
qed

lemma fmt_row_ok:
  "length r = n \<Longrightarrow> length widths = n \<Longrightarrow> fmt_row widths n r = Inr (table_line widths r)"
proof -
  assume a: "length r = n" "length widths = n"
  have "map (\<lambda>i. ljust (r ! i) (widths ! i)) [0..<n] = map (\<lambda>(cell, w). ljust cell w) (zip r widths)"
    using a by (intro nth_equalityI) simp_all
  then show ?thesis using a by (simp add: fmt_row_def table_line_def)
qed

lemma fmt_rows_ok:
  "\<forall>r\<in>set rows. length r = n \<Longrightarrow> length widths = n \<Longrightarrow>
     fmt_rows widths n rows = Inr (map (table_line widths) rows)"
  by (induction rows) (simp_all add: fmt_row_ok)

lemma format_table_out_ok:
  assumes "\<forall>r\<in>set rows. length r = length headers"
  shows "format_table_out headers rows = Inr (table_layout headers rows)"
proof -
  let ?ws = "map (column_width headers rows) [0..<length headers]"
  have w: "widen_rows (map length headers) rows = Inr ?ws"
    using assms by (simp add: widen_rows_ok final_widths)
  have len: "length ?ws = length headers" by simp
  show ?thesis
    unfolding format_table_out_def w table_layout_def Let_def
    using assms by (simp add: fmt_row_ok fmt_rows_ok)
qed


lemma format_table_ok:
  "\<forall>r\<in>set rows. length r = length headers \<Longrightarrow>
     format_table headers rows = Inr (join [newline] (table_layout headers rows))"
  by (simp add: format_table_def format_table_out_ok)

lemma split_on_no_sep: "c \<notin> set s \<Longrightarrow> split_on c s = [s]"
  by (induction s) auto

lemma split_on_append: "c \<notin> set s \<Longrightarrow> split_on c (s @ c # t) = s # split_on c t"
  by (induction s) auto

lemma split_on_join:
  "xs \<noteq> [] \<Longrightarrow> \<forall>x\<in>set xs. c \<notin> set x \<Longrightarrow> split_on c (join [c] xs) = xs"
  by (induction "[c]" xs rule: join.induct) (simp_all add: split_on_no_sep split_on_append)

lemma set_join: "set (join sep xs) \<subseteq> set sep \<union> \<Union> (set ` set xs)"
  by (induction sep xs rule: join.induct) auto

lemma newline_notin_table_line:
  assumes "\<forall>cell\<in>set r. newline \<notin> set cell"
  shows "newline \<notin> set (table_line widths r)"
proof
  assume "newline \<in> set (table_line widths r)"
  then have "newline \<in> set '' | '' \<union> \<Union> (set ` set (map (\<lambda>(cell, w). ljust cell w) (zip r widths)))"
    unfolding table_line_def using set_join by blast
  then obtain cell w where "(cell, w) \<in> set (zip r widths)" "newline \<in> set (ljust cell w)"
    by (auto simp: newline_def)
  then show False using assms by (auto simp: ljust_def newline_def dest: set_zip_leftD)
qed

lemma newline_notin_separator: "newline \<notin> set (separator widths)"
proof
  assume "newline \<in> set (separator widths)"
  then have "newline \<in> set ''-+-'' \<union> \<Union> (set ` set (map (\<lambda>w. replicate w CHR ''-'') widths))"
    unfolding separator_def using set_join by blast
  then show False by (auto simp: newline_def)
qed

lemma newline_notin_table_layout:
  assumes "\<forall>cell\<in>set (concat (headers # rows)). newline \<notin> set cell"
  shows "\<forall>l\<in>set (table_layout headers rows). newline \<notin> set l"
  using assms by (auto simp: table_layout_def Let_def newline_notin_separator
      intro!: newline_notin_table_line)

text \<open>
  Claim C8, as the code has it. When every row has as many cells as there are headers,
  \<open>format_table\<close> returns the lines of the layout joined by newlines: the header line, the
  separator and one line per row, \<open>2 + length rows\<close> entries, with each column as wide as
  its longest header or cell, the cells left-justified and joined by \<^verbatim>\<open>" | "\<close>, and the
  separator made of runs of dashes of each column's width joined by \<^verbatim>\<open>"-+-"\<close>. When no
  header and no cell contains a newline, these entries are the lines of the output.
\<close>

theorem format_table_layout:
  assumes "\<forall>r\<in>set rows. length r = length headers"
  shows "format_table headers rows = Inr (join [newline] (table_layout headers rows))
    \<and> length (table_layout headers rows) = 2 + length rows
    \<and> ((\<forall>cell\<in>set (concat (headers # rows)). newline \<notin> set cell) \<longrightarrow>
         split_on newline (join [newline] (table_layout headers rows)) = table_layout headers rows)"
proof -
  have "table_layout headers rows \<noteq> []" by (simp add: table_layout_def Let_def)
  then have "(\<forall>cell\<in>set (concat (headers # rows)). newline \<notin> set cell) \<longrightarrow>
         split_on newline (join [newline] (table_layout headers rows)) = table_layout headers rows"
    using newline_notin_table_layout split_on_join by blast
  moreover have "length (table_layout headers rows) = 2 + length rows"
    by (simp add: table_layout_def Let_def)
  ultimately show ?thesis using assms format_table_ok by blast
qed


lemma table_layout_example:
  "table_layout [''ID'', ''Name''] [[''D1'', ''Oven''], [''D22'', ''TV'']]
     = [''ID  | Name'', ''----+-----'', ''D1  | Oven'', ''D22 | TV  '']"
  by (simp add: table_layout_def column_width_def table_line_def separator_def ljust_def Let_def
      upt_conv_Cons)

theorem format_table_layout_witness:
  "format_table [''ID'', ''Name''] [[''D1'', ''Oven''], [''D22'', ''TV'']]
     = Inr (join [newline] [''ID  | Name'', ''----+-----'', ''D1  | Oven'', ''D22 | TV  ''])
   \<and> split_on newline
        (join [newline] (table_layout [''ID'', ''Name''] [[''D1'', ''Oven''], [''D22'', ''TV'']]))
      = [''ID  | Name'', ''----+-----'', ''D1  | Oven'', ''D22 | TV  '']"
  using format_table_layout [of "[[''D1'', ''Oven''], [''D22'', ''TV'']]" "[''ID'', ''Name'']"]
  by (simp add: table_layout_example newline_def)

text \<open>A header with a newline in it: no rows, and three lines of output.\<close>

theorem format_table_newline_in_cell:
  "format_table [[CHR ''a'', newline, CHR ''b'']] [] = Inr (''a'' @ [newline] @ ''b'' @ [newline] @ ''---'')
   \<and> length (split_on newline (''a'' @ [newline] @ ''b'' @ [newline] @ ''---'')) = 3"
  by (simp add: format_table_def format_table_out_def fmt_row_def separator_def ljust_def newline_def)

section \<open>The cost report\<close>



section \<open>The ranking of the predictions\<close>

lemma sort_reverse_key_descending:
  "sorted_wrt (\<lambda>a b. key b \<le> key a) (sort_reverse_key key xs)"
proof -
  have "sorted (map key (sort_key key (rev xs)))" by (rule sorted_sort_key)
  then have "sorted_wrt (\<lambda>a b. key a \<le> key b) (sort_key key (rev xs))"
    by (simp add: sorted_map)
  then show ?thesis by (simp add: sort_reverse_key_def sorted_wrt_rev)
qed

lemma sort_reverse_key_mset: "mset (sort_reverse_key key xs) = mset xs"
  by (simp add: sort_reverse_key_def)

lemma sort_reverse_key_stable:
  "filter (\<lambda>x. key x = k) (sort_reverse_key key xs) = filter (\<lambda>x. key x = k) xs"
  by (simp add: sort_reverse_key_def sort_key_stable rev_filter [symmetric])

lemma length_sort_reverse_key: "length (sort_reverse_key key xs) = length xs"
  by (simp add: sort_reverse_key_def)

lemma preds_exact_key:
  "x \<in> set (preds exact devices p) \<Longrightarrow>
     fst x = monthly_cost exact (wattage (fst (snd x))) (avg_hours_per_day (fst (snd x))) p"
  by (auto simp: preds_def prediction_entry_def Let_def cost_defs exact_def)

lemma set_sort_reverse_key: "set (sort_reverse_key key xs) = set xs"
  by (simp add: sort_reverse_key_def)

lemma ranking_exact_descending:
  "sorted_wrt (\<lambda>a b. monthly_cost exact (wattage (fst (snd b))) (avg_hours_per_day (fst (snd b))) p
                    \<le> monthly_cost exact (wattage (fst (snd a))) (avg_hours_per_day (fst (snd a))) p)
     (sort_reverse_key fst (preds exact devices p))"
proof (rule sorted_wrt_mono_rel [OF _ sort_reverse_key_descending [of fst "preds exact devices p"]])
  fix a b
  assume "a \<in> set (sort_reverse_key fst (preds exact devices p))"
    "b \<in> set (sort_reverse_key fst (preds exact devices p))" "fst b \<le> fst a"
  then show "monthly_cost exact (wattage (fst (snd b))) (avg_hours_per_day (fst (snd b))) p
      \<le> monthly_cost exact (wattage (fst (snd a))) (avg_hours_per_day (fst (snd a))) p"
    using preds_exact_key [of a devices p] preds_exact_key [of b devices p]
    by (simp add: set_sort_reverse_key)
qed

lemma ranking_exact_stable:
  "filter (\<lambda>x. monthly_cost exact (wattage (fst (snd x))) (avg_hours_per_day (fst (snd x))) p = c)
     (sort_reverse_key fst (preds exact devices p))
   = filter (\<lambda>x. monthly_cost exact (wattage (fst (snd x))) (avg_hours_per_day (fst (snd x))) p = c)
     (preds exact devices p)"
proof -
  have "filter (\<lambda>x. monthly_cost exact (wattage (fst (snd x))) (avg_hours_per_day (fst (snd x))) p = c)
      (sort_reverse_key fst (preds exact devices p))
    = filter (\<lambda>x. fst x = c) (sort_reverse_key fst (preds exact devices p))"
    by (rule filter_cong) (simp_all add: set_sort_reverse_key preds_exact_key)
  also have "\<dots> = filter (\<lambda>x. fst x = c) (preds exact devices p)"
    by (rule sort_reverse_key_stable)
  also have "\<dots> = filter (\<lambda>x. monthly_cost exact (wattage (fst (snd x)))
      (avg_hours_per_day (fst (snd x))) p = c) (preds exact devices p)"
    by (rule filter_cong) (simp_all add: preds_exact_key)
  finally show ?thesis .
qed

text \<open>
  Claim C3, as the code has it. The ranking of \<open>build_predictions_text\<close> pairs every device
  with its projected monthly cost \<open>mcost = monthly_kwh * price\<close>, sorts the pairs by
  descending \<open>mcost\<close>, keeps the input order among pairs of equal \<open>mcost\<close>, and takes the
  first three, or all of them when there are fewer than three devices. In exact
  arithmetic \<open>mcost\<close> is the monthly cost, and the ranking is descending and stable in the
  monthly cost itself; as floats the two agree up to rounding only. The costs of the
  model are finite numbers: a device list with a NaN cost, which Python's sort does not
  order, is outside it.
\<close>

theorem top3_ranking:
  "top3 rnd devices p = take 3 (sort_reverse_key fst (preds rnd devices p))
   \<and> preds rnd devices p =
       map (\<lambda>d. (fmul rnd (monthly_kwh rnd (wattage d) (avg_hours_per_day d)) p, d,
                  monthly_kwh rnd (wattage d) (avg_hours_per_day d))) devices
   \<and> sorted_wrt (\<lambda>a b. fst b \<le> fst a) (sort_reverse_key fst (preds rnd devices p))
   \<and> mset (sort_reverse_key fst (preds rnd devices p)) = mset (preds rnd devices p)
   \<and> (\<forall>cost. filter (\<lambda>x. fst x = cost) (sort_reverse_key fst (preds rnd devices p))
              = filter (\<lambda>x. fst x = cost) (preds rnd devices p))
   \<and> length (top3 rnd devices p) = min 3 (length devices)
   \<and> map fst (preds exact devices p)
       = map (\<lambda>d. monthly_cost exact (wattage d) (avg_hours_per_day d) p) devices
   \<and> sorted_wrt
        (\<lambda>a b. monthly_cost exact (wattage (fst (snd b))) (avg_hours_per_day (fst (snd b))) p
                 \<le> monthly_cost exact (wattage (fst (snd a))) (avg_hours_per_day (fst (snd a))) p)
        (sort_reverse_key fst (preds exact devices p))
   \<and> (\<forall>cost.
         filter (\<lambda>x. monthly_cost exact (wattage (fst (snd x))) (avg_hours_per_day (fst (snd x))) p
                      = cost)
           (sort_reverse_key fst (preds exact devices p))
         = filter (\<lambda>x. monthly_cost exact (wattage (fst (snd x))) (avg_hours_per_day (fst (snd x))) p
                        = cost)
             (preds exact devices p))"
proof -
  have entries: "preds rnd devices p =
       map (\<lambda>d. (fmul rnd (monthly_kwh rnd (wattage d) (avg_hours_per_day d)) p, d,
                  monthly_kwh rnd (wattage d) (avg_hours_per_day d))) devices"
    by (simp add: preds_def prediction_entry_def Let_def)
  have keys: "map fst (preds exact devices p)
       = map (\<lambda>d. monthly_cost exact (wattage d) (avg_hours_per_day d) p) devices"
    by (simp add: preds_def prediction_entry_def Let_def cost_defs exact_def)
  have len: "length (top3 rnd devices p) = min 3 (length devices)"
    by (simp add: top3_def length_sort_reverse_key preds_def min.commute)
  have sorted_key: "top3 rnd devices p = take 3 (sort_reverse_key fst (preds rnd devices p))
      \<and> sorted_wrt (\<lambda>a b. fst b \<le> fst a) (sort_reverse_key fst (preds rnd devices p))
      \<and> mset (sort_reverse_key fst (preds rnd devices p)) = mset (preds rnd devices p)
      \<and> (\<forall>cost. filter (\<lambda>x. fst x = cost) (sort_reverse_key fst (preds rnd devices p))
              = filter (\<lambda>x. fst x = cost) (preds rnd devices p))"
    using sort_reverse_key_descending [of fst "preds rnd devices p"]
      sort_reverse_key_stable [of fst _ "preds rnd devices p"]
    by (simp add: top3_def sort_reverse_key_mset)
  from entries keys len sorted_key ranking_exact_descending [of p devices]
    ranking_exact_stable [of p _ devices]
  show ?thesis by blast
qed

lemma fan_key:
  "fmul binary64 (monthly_kwh binary64 85 (binary64 (7 / 10))) (binary64 (1 / 10))
     = 1607785066971267 / 9007199254740992"
  by (simp add: cost_defs b64_defs)

lemma charger_key:
  "fmul binary64 (monthly_kwh binary64 5 (binary64 (119 / 10))) (binary64 (1 / 10))
     = 1607785066971267 / 9007199254740992"
  by (simp add: cost_defs b64_defs)

lemma fan_monthly_cost:
  "monthly_cost binary64 85 (binary64 (7 / 10)) (binary64 (1 / 10))
     = 1607785066971267 / 9007199254740992"
  by (simp add: cost_defs b64_defs)

lemma charger_monthly_cost:
  "monthly_cost binary64 5 (binary64 (119 / 10)) (binary64 (1 / 10))
     = 6431140267885069 / 36028797018963968"
  by (simp add: cost_defs b64_defs)

text \<open>
  In binary64 the ranking is not descending in \<open>monthly_cost\<close>: at the price 0.10 a fan
  of 85 W used 0.7 hours a day and a charger of 5 W used 11.9 hours a day have the same
  key 0.1785, so the fan, first in the input, stays first, but its monthly cost 0.1785
  is below the charger's 0.17850000000000002.
\<close>

theorem ranking_not_descending_in_monthly_cost:
  "map (\<lambda>(mcost, d, mkwh). device_id d)
     (top3 binary64
        [\<lparr>device_id = ''A'', name = ''Fan'', wattage = 85, avg_hours_per_day = binary64 (7 / 10),
          room_location = ''Hall''\<rparr>,
         \<lparr>device_id = ''B'', name = ''Charger'', wattage = 5,
          avg_hours_per_day = binary64 (119 / 10), room_location = ''Hall''\<rparr>]
        (binary64 (1 / 10)))
     = [''A'', ''B'']
   \<and> monthly_cost binary64 85 (binary64 (7 / 10)) (binary64 (1 / 10))
       < monthly_cost binary64 5 (binary64 (119 / 10)) (binary64 (1 / 10))"
proof -
  have "monthly_cost binary64 85 (binary64 (7 / 10)) (binary64 (1 / 10))
       < monthly_cost binary64 5 (binary64 (119 / 10)) (binary64 (1 / 10))"
    by (simp add: fan_monthly_cost charger_monthly_cost)
  then show ?thesis
    by (simp add: top3_def preds_def prediction_entry_def sort_reverse_key_def fan_key charger_key)
qed

section \<open>Room totals\<close>

lemma fadd_exact: "fadd exact x y = x + y"
  by (simp add: fadd_def exact_def)

lemma keys_add_to_room:
  "map fst (add_to_room rnd m room c)
     = (if room \<in> fst ` set m then map fst m else map fst m @ [room])"
  by (induction m) (fastforce simp: image_iff)+

lemma distinct_add_to_room:
  "distinct (map fst m) \<Longrightarrow> distinct (map fst (add_to_room rnd m room c))"
  by (simp add: keys_add_to_room)

lemma map_of_add_to_room:
  "map_of (add_to_room rnd m room c) =
     (map_of m)(room \<mapsto> fadd rnd (case map_of m room of None \<Rightarrow> 0 | Some v \<Rightarrow> v) c)"
  by (induction m) (auto simp: fun_eq_iff)

lemma sum_add_to_room:
  "sum_list (map snd (add_to_room exact m room c)) = sum_list (map snd m) + c"
  by (induction m) (auto simp: fadd_exact)


lemma set_keys_fold:
  "fst ` set (foldl (\<lambda>by_room d. add_to_room rnd by_room (room_location d) (cost d)) m devices)
     = fst ` set m \<union> room_location ` set devices"
proof (induction devices arbitrary: m)
  case Nil
  then show ?case by simp
next
  case (Cons d devices)
  have "fst ` set (add_to_room rnd m (room_location d) (cost d)) = insert (room_location d) (fst ` set m)"
    using keys_add_to_room [of rnd m "room_location d" "cost d"]
    by (metis (no_types, lifting) Un_insert_right insert_absorb list.set_map list.simps(15) set_append
        sup_bot.right_neutral empty_set)
  then show ?case using Cons.IH by simp
qed

lemma distinct_keys_fold:
  "distinct (map fst m) \<Longrightarrow>
     distinct (map fst (foldl (\<lambda>by_room d. add_to_room rnd by_room (room_location d) (cost d)) m devices))"
  by (induction devices arbitrary: m) (simp_all add: distinct_add_to_room)

lemma sum_fold_exact:
  "sum_list (map snd (foldl (\<lambda>by_room d. add_to_room exact by_room (room_location d) (cost d)) m devices))
     = sum_list (map snd m) + (\<Sum>d\<leftarrow>devices. cost d)"
  by (induction devices arbitrary: m) (simp_all add: sum_add_to_room)

lemma map_of_fold_exact:
  "map_of (foldl (\<lambda>by_room d. add_to_room exact by_room (room_location d) (cost d)) m devices) room
     = (if room \<in> room_location ` set devices
        then Some ((case map_of m room of None \<Rightarrow> 0 | Some v \<Rightarrow> v)
                   + (\<Sum>d\<leftarrow>filter (\<lambda>d. room_location d = room) devices. cost d))
        else map_of m room)"
proof (induction devices arbitrary: m)
  case Nil
  then show ?case by simp
next
  case (Cons d devices)
  show ?case
  proof (cases "room \<in> room_location ` set devices")
    case True
    then show ?thesis
      by (simp add: Cons.IH map_of_add_to_room fadd_exact split: option.splits)
  next
    case False
    then have "filter (\<lambda>d. room_location d = room) devices = []"
      by (auto simp: filter_empty_conv)
    with False show ?thesis
      by (auto simp: Cons.IH map_of_add_to_room fadd_exact split: option.splits)
  qed
qed


lemma room_monthly_totals_keys:
  "distinct (map fst (room_monthly_totals rnd devices p))
   \<and> set (map fst (room_monthly_totals rnd devices p)) = room_location ` set devices"
  using set_keys_fold [of rnd _ "[]" devices] distinct_keys_fold [of "[]" rnd _ devices]
  by (simp add: room_monthly_totals_def)

lemma room_monthly_totals_lookup:
  "map_of (room_monthly_totals exact devices p) room =
     (if room \<in> room_location ` set devices
      then Some (\<Sum>d\<leftarrow>filter (\<lambda>d. room_location d = room) devices.
                   monthly_cost exact (wattage d) (avg_hours_per_day d) p)
      else None)"
  by (simp add: room_monthly_totals_def map_of_fold_exact)

lemma room_monthly_totals_sum:
  "sum_list (map snd (room_monthly_totals exact devices p))
     = (\<Sum>d\<leftarrow>devices. monthly_cost exact (wattage d) (avg_hours_per_day d) p)"
  by (simp add: room_monthly_totals_def sum_fold_exact)

lemma sum_list_filter_mset:
  "(\<Sum>d\<leftarrow>filter P xs. f d) = sum_mset (image_mset f (filter_mset P (mset xs)))"
  by (induction xs) simp_all

lemma room_monthly_totals_perm:
  assumes "mset devices' = mset devices"
  shows "map_of (room_monthly_totals exact devices' p) = map_of (room_monthly_totals exact devices p)"
proof
  fix room
  have "set devices' = set devices" using assms by (rule mset_eq_setD)
  then show "map_of (room_monthly_totals exact devices' p) room
      = map_of (room_monthly_totals exact devices p) room"
    by (simp add: room_monthly_totals_lookup sum_list_filter_mset assms)
qed


lemma binary64_small_integers: "binary64 10 = 10" "binary64 20 = 20" "binary64 30 = 30"
  by (simp_all add: b64_defs)

text \<open>
  Claim C5, as the code has it. In exact arithmetic the room totals add up to the monthly
  fleet total, also as \<open>build_monthly_forecast_text\<close> sums them. The rooms of the result
  are exactly the rooms of the devices, each once; the total of a room is the sum of the
  monthly costs of the devices in that room; and the mapping from rooms to totals is the
  same for every reordering of the device list. Two devices of one room with the monthly
  costs 10.0 and 20.0 give the single room total 30.0, in binary64 too.
\<close>

theorem room_totals_sum_to_fleet_monthly:
  "sum_list (map snd (room_monthly_totals exact devices p)) = monthly (totals exact devices p)
   \<and> device_monthly_total exact devices p = monthly (totals exact devices p)
   \<and> distinct (map fst (room_monthly_totals rnd devices p))
   \<and> set (map fst (room_monthly_totals rnd devices p)) = room_location ` set devices
   \<and> map_of (room_monthly_totals exact devices p) room =
        (if room \<in> room_location ` set devices
         then Some (\<Sum>d\<leftarrow>filter (\<lambda>d. room_location d = room) devices.
                      monthly_cost exact (wattage d) (avg_hours_per_day d) p)
         else None)
   \<and> (mset devices' = mset devices \<longrightarrow>
        map_of (room_monthly_totals exact devices' p) = map_of (room_monthly_totals exact devices p))
   \<and> (room_location d1 = room_location d2
        \<and> monthly_cost binary64 (wattage d1) (avg_hours_per_day d1) p = 10
        \<and> monthly_cost binary64 (wattage d2) (avg_hours_per_day d2) p = 20 \<longrightarrow>
        room_monthly_totals binary64 [d1, d2] p = [(room_location d1, 30)])"
proof -
  have total: "sum_list (map snd (room_monthly_totals exact devices p))
      = monthly (totals exact devices p)"
    by (simp add: room_monthly_totals_sum totals_sums py_sum_exact)
  then have forecast: "device_monthly_total exact devices p = monthly (totals exact devices p)"
    by (simp add: device_monthly_total_def py_sum_exact)
  have example: "room_location d1 = room_location d2
        \<and> monthly_cost binary64 (wattage d1) (avg_hours_per_day d1) p = 10
        \<and> monthly_cost binary64 (wattage d2) (avg_hours_per_day d2) p = 20 \<longrightarrow>
        room_monthly_totals binary64 [d1, d2] p = [(room_location d1, 30)]"
    by (simp add: room_monthly_totals_def fadd_def binary64_small_integers)
  show ?thesis
    using total forecast example room_monthly_totals_keys [of rnd devices p]
      room_monthly_totals_lookup [of devices p room]
      room_monthly_totals_perm [of devices' devices p]
    by blast
qed

theorem room_totals_sum_to_fleet_monthly_witness:
  "map_of (room_monthly_totals exact [kitchen2, kitchen1] (1 / 3))
     = map_of (room_monthly_totals exact [kitchen1, kitchen2] (1 / 3))
   \<and> monthly_cost binary64 (wattage kitchen1) (avg_hours_per_day kitchen1) (binary64 (1 / 3)) = 10
   \<and> monthly_cost binary64 (wattage kitchen2) (avg_hours_per_day kitchen2) (binary64 (1 / 3)) = 20
   \<and> room_monthly_totals binary64 [kitchen1, kitchen2] (binary64 (1 / 3)) = [(''Kitchen'', 30)]"
proof -
  have costs:
    "monthly_cost binary64 (wattage kitchen1) (avg_hours_per_day kitchen1) (binary64 (1 / 3)) = 10"
    "monthly_cost binary64 (wattage kitchen2) (avg_hours_per_day kitchen2) (binary64 (1 / 3)) = 20"
    by (simp_all add: kitchen1_def kitchen2_def cost_defs b64_defs)
  have room: "room_location kitchen1 = room_location kitchen2" "room_location kitchen1 = ''Kitchen''"
    by (simp_all add: kitchen1_def kitchen2_def)
  have perm: "mset [kitchen2, kitchen1] = mset [kitchen1, kitchen2]" by simp
  show ?thesis
    using room_totals_sum_to_fleet_monthly
      [of "[kitchen1, kitchen2]" "1 / 3" binary64 "''Kitchen''" "[kitchen2, kitchen1]"
          kitchen1 kitchen2]
      room_totals_sum_to_fleet_monthly
      [of "[kitchen1, kitchen2]" "binary64 (1 / 3)" binary64 "''Kitchen''" "[kitchen2, kitchen1]"
          kitchen1 kitchen2]
      costs room perm
    by simp
qed

text \<open>
  In binary64 the sum of the room totals and the monthly fleet total differ for a lamp
  and a fridge in the kitchen and a heater in the living room, at the price 0.10: the
  rooms give 7.8, the fleet total is 7.800000000000001.
\<close>

theorem room_totals_sum_not_bitwise:
  "device_monthly_total binary64
     [\<lparr>device_id = ''D1'', name = ''Lamp'', wattage = 60, avg_hours_per_day = 5,
       room_location = ''Kitchen''\<rparr>,
      \<lparr>device_id = ''D2'', name = ''Heater'', wattage = 2000, avg_hours_per_day = 1,
       room_location = ''Living''\<rparr>,
      \<lparr>device_id = ''D3'', name = ''Fridge'', wattage = 100, avg_hours_per_day = 3,
       room_location = ''Kitchen''\<rparr>] (binary64 (1 / 10))
   \<noteq> monthly (totals binary64
     [\<lparr>device_id = ''D1'', name = ''Lamp'', wattage = 60, avg_hours_per_day = 5,
       room_location = ''Kitchen''\<rparr>,
      \<lparr>device_id = ''D2'', name = ''Heater'', wattage = 2000, avg_hours_per_day = 1,
       room_location = ''Living''\<rparr>,
      \<lparr>device_id = ''D3'', name = ''Fridge'', wattage = 100, avg_hours_per_day = 3,
       room_location = ''Kitchen''\<rparr>] (binary64 (1 / 10)))"
proof -
  have m: "monthly_cost binary64 60 5 (binary64 (1 / 10)) = 2026619832316723 / 2251799813685248"
    "monthly_cost binary64 2000 1 (binary64 (1 / 10)) = 6"
    "monthly_cost binary64 100 3 (binary64 (1 / 10)) = 2026619832316723 / 2251799813685248"
    by (simp_all add: cost_defs b64_defs)
  have s: "fadd binary64 0 (2026619832316723 / 2251799813685248) = 2026619832316723 / 2251799813685248"
    "fadd binary64 0 6 = 6"
    "fadd binary64 0 (2026619832316723 / 1125899906842624) = 2026619832316723 / 1125899906842624"
    "fadd binary64 (2026619832316723 / 2251799813685248) 6 = 3884354678607053 / 562949953421312"
    "fadd binary64 (3884354678607053 / 562949953421312) (2026619832316723 / 2251799813685248)
       = 2195504818343117 / 281474976710656"
    "fadd binary64 (2026619832316723 / 2251799813685248) (2026619832316723 / 2251799813685248)
       = 2026619832316723 / 1125899906842624"
    "fadd binary64 (2026619832316723 / 1125899906842624) 6 = 8782019273372467 / 1125899906842624"
    by (simp_all add: fadd_def b64_defs)
  show ?thesis
    by (simp add: device_monthly_total_def room_monthly_totals_def py_sum_def totals_sums m s)
qed

end
